theory Spec2Isabelle
  imports Complex_Main "HOL-Library.Multiset" "HOL-Library.Option_ord"
begin

section \<open>Values, documents and the store\<close>

text \<open>
  Request and response bodies are JSON. Python floats are taken as reals: rounding is
  outside the model. A JSON object nested in a value is an association list.
\<close>

datatype json =
    JNull
  | JBool bool
  | JNum real
  | JStr string
  | JList "json list"
  | JDict "(string \<times> json) list"

text \<open>
  A stored field holds a JSON-like value or a \<open>datetime\<close>. Instants are integers
  (milliseconds since the epoch, the resolution of the store).
\<close>

datatype val = Plain json | DateTime int

text \<open>
  A stored document: its \<open>_id\<close> (an ObjectId, kept as the lower-case hexadecimal
  digits of its bytes) and its other top-level fields, a dictionary from field name to
  value.
\<close>

record document =
  oid :: string
  flds :: "string \<rightharpoonup> val"

text \<open>\<open>db[collection]\<close>: the documents of a collection, in insertion order.\<close>

type_synonym store = "string \<Rightarrow> document list"

datatype error =
    HTTPException nat string
  | WriteError

subsection \<open>ObjectId\<close>

text \<open>
  \<open>bson.ObjectId\<close> is a library type. \<open>ObjectId.is_valid(x)\<close> is false for an empty
  \<open>x\<close> and otherwise tells whether \<open>ObjectId(x)\<close> can be built: for a string, when it
  has 24 characters and \<open>bytes.fromhex\<close> parses it. \<open>bytes.fromhex\<close> reads two adjacent
  hexadecimal digits per byte and skips ASCII whitespace before and between bytes, so a
  24-character string with whitespace is valid and denotes fewer than 12 bytes. Two
  ObjectIds are equal when their bytes are; an ObjectId is kept here as \<open>str\<close> prints
  it, the lower-case hexadecimal digits of its bytes. \<open>fromhex\<close> returns these digits,
  or \<open>None\<close> where Python raises \<open>ValueError\<close>.
\<close>

definition hexdigits :: string where
  "hexdigits = ''0123456789abcdefABCDEF''"

definition whitespace :: string where
  "whitespace = [CHR '' '', CHR 0x09, CHR 0x0A, CHR 0x0B, CHR 0x0C, CHR 0x0D]"

definition is_hex :: "char \<Rightarrow> bool" where
  "is_hex c = (c \<in> set hexdigits)"

definition is_space :: "char \<Rightarrow> bool" where
  "is_space c = (c \<in> set whitespace)"

definition lower :: "char \<Rightarrow> char" where
  "lower c =
     (if c = CHR ''A'' then CHR ''a'' else if c = CHR ''B'' then CHR ''b''
      else if c = CHR ''C'' then CHR ''c'' else if c = CHR ''D'' then CHR ''d''
      else if c = CHR ''E'' then CHR ''e'' else if c = CHR ''F'' then CHR ''f''
      else c)"

fun fromhex :: "string \<Rightarrow> string option" where
  "fromhex [] = Some []"
| "fromhex [c] = (if is_space c then Some [] else None)"
| "fromhex (c # d # cs) =
     (if is_space c then fromhex (d # cs)
      else if is_hex c \<and> is_hex d
        then (case fromhex cs of None \<Rightarrow> None | Some bs \<Rightarrow> Some (lower c # lower d # bs))
      else None)"

definition is_valid :: "string \<Rightarrow> bool" where
  "is_valid x = (x \<noteq> [] \<and> length x = 24 \<and> fromhex x \<noteq> None)"

text \<open>
  \<open>ObjectId(x)\<close>. The source builds it from a string that \<open>is_valid\<close> has accepted or
  that \<open>str\<close> of a stored id has printed; for any other string Python raises, and the
  model has no value of interest.
\<close>

definition ObjectId :: "string \<Rightarrow> string" where
  "ObjectId x = (case fromhex x of None \<Rightarrow> [] | Some bs \<Rightarrow> bs)"

subsection \<open>The collection operations the source calls\<close>

text \<open>
  The pymongo calls of \<open>main.py\<close>, by the contract the specification gives the
  document store: a filter is a conjunction of conditions on top-level fields, each an
  exact match or, for \<open>{"$gte": t}\<close> with a \<open>datetime\<close> \<open>t\<close>, a lower bound on a
  stored \<open>datetime\<close>. Field names are top-level keys; dotted paths into nested
  values are outside the model.
\<close>

datatype cond = Eq val | GteDate int

type_synonym query = "(string \<times> cond) list"

fun holds :: "cond \<Rightarrow> val option \<Rightarrow> bool" where
  "holds (Eq v) x = (x = Some v)"
| "holds (GteDate t) (Some (DateTime u)) = (t \<le> u)"
| "holds (GteDate t) _ = False"

definition matches :: "query \<Rightarrow> document \<Rightarrow> bool" where
  "matches q d = list_all (\<lambda>(k, c). holds c (flds d k)) q"

definition find_docs :: "query \<Rightarrow> document list \<Rightarrow> document list" where
  "find_docs q docs = filter (matches q) docs"

definition count_documents :: "query \<Rightarrow> document list \<Rightarrow> nat" where
  "count_documents q docs = length (find_docs q docs)"

text \<open>
  \<open>.sort("created_at", -1)\<close>: descending on the \<open>created_at\<close> field. A stored
  \<open>datetime\<close> sorts above every value that is not one (and above a missing field);
  the model keeps no finer order among those.
\<close>

definition created_key :: "document \<Rightarrow> int option" where
  "created_key d = (case flds d ''created_at'' of Some (DateTime t) \<Rightarrow> Some t | _ \<Rightarrow> None)"

definition sort_created_desc :: "document list \<Rightarrow> document list" where
  "sort_created_desc docs = rev (sort_key created_key docs)"

text \<open>\<open>find_one({"_id": i})\<close>: the first document with that id, if any.\<close>

fun find_one :: "string \<Rightarrow> document list \<Rightarrow> document option" where
  "find_one i [] = None"
| "find_one i (d # ds) = (if oid d = i then Some d else find_one i ds)"

text \<open>\<open>insert_one\<close>: the document is added to the collection.\<close>

definition insert_one :: "document \<Rightarrow> document list \<Rightarrow> document list" where
  "insert_one d docs = docs @ [d]"

text \<open>
  \<open>find_one_and_update({"_id": i}, {"$set": p}, return_document=True)\<close>: the fields of
  \<open>p\<close> replace those of the first document with that id, every other field stays, and
  the document is returned as it is after the update.
\<close>

fun find_one_and_update :: "string \<Rightarrow> (string \<rightharpoonup> val) \<Rightarrow> document list
    \<Rightarrow> document option \<times> document list" where
  "find_one_and_update i p [] = (None, [])"
| "find_one_and_update i p (d # ds) =
     (if oid d = i then (Some (d\<lparr>flds := flds d ++ p\<rparr>), d\<lparr>flds := flds d ++ p\<rparr> # ds)
      else (fst (find_one_and_update i p ds), d # snd (find_one_and_update i p ds)))"

text \<open>\<open>delete_one({"_id": i})\<close>: removes the first document with that id; the count
  of removed documents is 0 or 1.\<close>

fun delete_one :: "string \<Rightarrow> document list \<Rightarrow> nat \<times> document list" where
  "delete_one i [] = (0, [])"
| "delete_one i (d # ds) =
     (if oid d = i then (1, ds)
      else (fst (delete_one i ds), d # snd (delete_one i ds)))"

text \<open>
  The aggregation of \<open>performance\<close>: \<open>$match\<close> then one \<open>$group\<close> with
  \<open>_id: None\<close>. No matching document gives no group at all; otherwise there is one
  group, \<open>$sum\<close> adding the numeric \<open>total\<close> fields and \<open>$avg\<close> averaging them
  (null when none is numeric).
\<close>

record group_row =
  revenue :: real
  avg :: "real option"

definition numeric_totals :: "document list \<Rightarrow> real list" where
  "numeric_totals docs =
     concat (map (\<lambda>d. case flds d ''total'' of Some (Plain (JNum x)) \<Rightarrow> [x] | _ \<Rightarrow> []) docs)"

definition aggregate :: "query \<Rightarrow> document list \<Rightarrow> group_row list" where
  "aggregate q docs =
     (case find_docs q docs of
        [] \<Rightarrow> []
      | m # ms \<Rightarrow>
          [\<lparr>revenue = sum_list (numeric_totals (m # ms)),
            avg = (if numeric_totals (m # ms) = [] then None
                   else Some (sum_list (numeric_totals (m # ms))
                                / real (length (numeric_totals (m # ms)))))\<rparr>])"

subsection \<open>create_document\<close>

text \<open>
  Modelled from the spec: \<open>create_document\<close> of \<open>database.py\<close>, which is not among
  the sources. The specification's contract for it: "\<open>insert(collection, record) -> id\<close>:
  assigns a new unique id and creation/update timestamps; never fails on valid input".
  The clock reading \<open>now\<close> and the identifier the store assigns, \<open>ObjectId new_oid\<close>,
  are inputs of the model; the string returned is \<open>str\<close> of that identifier.
\<close>

definition create_document :: "int \<Rightarrow> string \<Rightarrow> string \<Rightarrow> (string \<rightharpoonup> val) \<Rightarrow> store
    \<Rightarrow> string \<times> store" where
  "create_document now new_oid collection data s =
     (ObjectId new_oid,
      s(collection := insert_one
          \<lparr>oid = ObjectId new_oid,
           flds = data(''created_at'' \<mapsto> DateTime now, ''updated_at'' \<mapsto> DateTime now)\<rparr>
          (s collection)))"

section \<open>Schemas\<close>

datatype Role = admin | employee

datatype Status = draft | sent | approved | rejected

record User =
  name :: string
  email :: string
  role :: Role
  phone :: "string option"
  avatar_url :: "string option"
  is_active :: bool

record HouseCategory =
  cat_name :: string
  cat_description :: "string option"
  cat_is_active :: bool

record Subcategory =
  sub_name :: string
  sub_description :: "string option"
  category_id :: string
  sub_is_active :: bool

record Package =
  pkg_name :: string
  pkg_description :: "string option"
  pkg_category_id :: "string option"
  pkg_subcategory_id :: "string option"
  features :: "string list"
  price :: real
  pkg_is_active :: bool

record QuotationItem =
  package_id :: string
  item_name :: "string option"
  quantity :: int
  unit_price :: real
  item_total :: real

record Quotation =
  employee_id :: string
  client_name :: string
  client_contact :: "string option"
  house_category_id :: "string option"
  subcategory_id :: "string option"
  items :: "QuotationItem list"
  subtotal :: real
  discount :: real
  tax :: real
  total :: real
  status :: Status
  quotation_notes :: "string option"

subsection \<open>model_dump\<close>

definition opt_str :: "string option \<Rightarrow> json" where
  "opt_str x = (case x of None \<Rightarrow> JNull | Some s \<Rightarrow> JStr s)"

fun role_str :: "Role \<Rightarrow> string" where
  "role_str admin = ''admin''"
| "role_str employee = ''employee''"

fun status_str :: "Status \<Rightarrow> string" where
  "status_str draft = ''draft''"
| "status_str sent = ''sent''"
| "status_str approved = ''approved''"
| "status_str rejected = ''rejected''"

definition dump_user :: "User \<Rightarrow> (string \<rightharpoonup> val)" where
  "dump_user u =
     [''name'' \<mapsto> Plain (JStr (name u)),
      ''email'' \<mapsto> Plain (JStr (email u)),
      ''role'' \<mapsto> Plain (JStr (role_str (role u))),
      ''phone'' \<mapsto> Plain (opt_str (phone u)),
      ''avatar_url'' \<mapsto> Plain (opt_str (avatar_url u)),
      ''is_active'' \<mapsto> Plain (JBool (is_active u))]"

definition dump_category :: "HouseCategory \<Rightarrow> (string \<rightharpoonup> val)" where
  "dump_category c =
     [''name'' \<mapsto> Plain (JStr (cat_name c)),
      ''description'' \<mapsto> Plain (opt_str (cat_description c)),
      ''is_active'' \<mapsto> Plain (JBool (cat_is_active c))]"

definition dump_subcategory :: "Subcategory \<Rightarrow> (string \<rightharpoonup> val)" where
  "dump_subcategory sub =
     [''name'' \<mapsto> Plain (JStr (sub_name sub)),
      ''description'' \<mapsto> Plain (opt_str (sub_description sub)),
      ''category_id'' \<mapsto> Plain (JStr (category_id sub)),
      ''is_active'' \<mapsto> Plain (JBool (sub_is_active sub))]"

definition dump_package :: "Package \<Rightarrow> (string \<rightharpoonup> val)" where
  "dump_package pkg =
     [''name'' \<mapsto> Plain (JStr (pkg_name pkg)),
      ''description'' \<mapsto> Plain (opt_str (pkg_description pkg)),
      ''category_id'' \<mapsto> Plain (opt_str (pkg_category_id pkg)),
      ''subcategory_id'' \<mapsto> Plain (opt_str (pkg_subcategory_id pkg)),
      ''features'' \<mapsto> Plain (JList (map JStr (features pkg))),
      ''price'' \<mapsto> Plain (JNum (price pkg)),
      ''is_active'' \<mapsto> Plain (JBool (pkg_is_active pkg))]"

definition dump_item :: "QuotationItem \<Rightarrow> json" where
  "dump_item it =
     JDict [(''package_id'', JStr (package_id it)),
            (''name'', opt_str (item_name it)),
            (''quantity'', JNum (of_int (quantity it))),
            (''unit_price'', JNum (unit_price it)),
            (''total'', JNum (item_total it))]"

definition dump_quotation :: "Quotation \<Rightarrow> (string \<rightharpoonup> val)" where
  "dump_quotation quotation =
     [''employee_id'' \<mapsto> Plain (JStr (employee_id quotation)),
      ''client_name'' \<mapsto> Plain (JStr (client_name quotation)),
      ''client_contact'' \<mapsto> Plain (opt_str (client_contact quotation)),
      ''house_category_id'' \<mapsto> Plain (opt_str (house_category_id quotation)),
      ''subcategory_id'' \<mapsto> Plain (opt_str (subcategory_id quotation)),
      ''items'' \<mapsto> Plain (JList (map dump_item (items quotation))),
      ''subtotal'' \<mapsto> Plain (JNum (subtotal quotation)),
      ''discount'' \<mapsto> Plain (JNum (discount quotation)),
      ''tax'' \<mapsto> Plain (JNum (tax quotation)),
      ''total'' \<mapsto> Plain (JNum (total quotation)),
      ''status'' \<mapsto> Plain (JStr (status_str (status quotation))),
      ''notes'' \<mapsto> Plain (opt_str (quotation_notes quotation))]"

section \<open>The endpoints of main.py\<close>

text \<open>
  \<open>to_str_id\<close>: \<open>None\<close> stays \<open>None\<close>; otherwise \<open>_id\<close> becomes its string and
  every \<open>datetime\<close> its ISO text; \<open>datetime.isoformat\<close> is a parameter.
\<close>

definition to_str_id :: "(int \<Rightarrow> string) \<Rightarrow> document option \<Rightarrow> (string \<rightharpoonup> json) option" where
  "to_str_id isoformat doc =
     (case doc of
        None \<Rightarrow> None
      | Some d \<Rightarrow>
          Some (\<lambda>k. if k = ''_id'' then Some (JStr (oid d))
                    else (case flds d k of
                            None \<Rightarrow> None
                          | Some (Plain j) \<Rightarrow> Some j
                          | Some (DateTime t) \<Rightarrow> Some (JStr (isoformat t)))))"

text \<open>Python truthiness of an optional string: \<open>None\<close> and \<open>""\<close> are false.\<close>

definition truthy :: "string option \<Rightarrow> bool" where
  "truthy x = (case x of None \<Rightarrow> False | Some s \<Rightarrow> s \<noteq> [])"

text \<open>
  An endpoint returns its response, or the exception it raises, together with the store
  as the call leaves it. The clock reading \<open>now\<close> and the identifier \<open>new_oid\<close>
  that the store assigns to an inserted document are inputs.
\<close>

type_synonym 'a outcome = "(error + 'a) \<times> store"

type_synonym response = "(string \<rightharpoonup> json) option"

subsection \<open>Generic CRUD utilities\<close>

definition insert_with_schema :: "(int \<Rightarrow> string) \<Rightarrow> int \<Rightarrow> string \<Rightarrow> string
    \<Rightarrow> (string \<rightharpoonup> val) \<Rightarrow> store \<Rightarrow> response outcome" where
  "insert_with_schema isoformat now new_oid collection data s =
     (let created = create_document now new_oid collection data s
      in (Inr (to_str_id isoformat
                 (find_one (ObjectId (fst created)) (snd created collection))),
          snd created))"

text \<open>
  \<open>payload\<close> is the JSON object of the request body. The store refuses a \<open>$set\<close> on
  \<open>_id\<close> of a document it has matched (the field is immutable, and a JSON value is
  never the ObjectId the document has): the call fails with a write error and the
  document stays as it was.
\<close>

definition update_by_id :: "(int \<Rightarrow> string) \<Rightarrow> int \<Rightarrow> string \<Rightarrow> string
    \<Rightarrow> (string \<rightharpoonup> json) \<Rightarrow> store \<Rightarrow> response outcome" where
  "update_by_id isoformat now collection x payload s =
     (if \<not> is_valid x then (Inl (HTTPException 400 ''Invalid id''), s)
      else
        let p = (map_option Plain \<circ> payload)(''updated_at'' \<mapsto> DateTime now);
            res = find_one_and_update (ObjectId x) p (s collection)
        in if fst res \<noteq> None \<and> payload ''_id'' \<noteq> None then (Inl WriteError, s)
           else if fst res = None
             then (Inl (HTTPException 404 ''Not found''), s(collection := snd res))
           else (Inr (to_str_id isoformat (fst res)), s(collection := snd res)))"

definition delete_by_id :: "string \<Rightarrow> string \<Rightarrow> store \<Rightarrow> bool outcome" where
  "delete_by_id collection x s =
     (if \<not> is_valid x then (Inl (HTTPException 400 ''Invalid id''), s)
      else
        let res = delete_one (ObjectId x) (s collection)
        in if fst res = 0
             then (Inl (HTTPException 404 ''Not found''), s(collection := snd res))
           else (Inr True, s(collection := snd res)))"

subsection \<open>Users\<close>

definition list_users :: "(int \<Rightarrow> string) \<Rightarrow> string option \<Rightarrow> store \<Rightarrow> response list" where
  "list_users isoformat role_filter s =
     (let q = (if truthy role_filter then [(''role'', Eq (Plain (JStr (the role_filter))))]
               else [])
      in map (\<lambda>d. to_str_id isoformat (Some d))
           (sort_created_desc (find_docs q (s ''user''))))"

definition create_user :: "(int \<Rightarrow> string) \<Rightarrow> int \<Rightarrow> string \<Rightarrow> User \<Rightarrow> store
    \<Rightarrow> response outcome" where
  "create_user isoformat now new_oid user s =
     insert_with_schema isoformat now new_oid ''user'' (dump_user user) s"

definition update_user :: "(int \<Rightarrow> string) \<Rightarrow> int \<Rightarrow> string \<Rightarrow> (string \<rightharpoonup> json) \<Rightarrow> store
    \<Rightarrow> response outcome" where
  "update_user isoformat now user_id payload s =
     update_by_id isoformat now ''user'' user_id payload s"

definition delete_user :: "string \<Rightarrow> store \<Rightarrow> bool outcome" where
  "delete_user user_id s = delete_by_id ''user'' user_id s"

subsection \<open>House categories\<close>

definition list_categories :: "(int \<Rightarrow> string) \<Rightarrow> store \<Rightarrow> response list" where
  "list_categories isoformat s =
     map (\<lambda>d. to_str_id isoformat (Some d))
       (sort_created_desc (find_docs [] (s ''housecategory'')))"

definition create_category :: "(int \<Rightarrow> string) \<Rightarrow> int \<Rightarrow> string \<Rightarrow> HouseCategory \<Rightarrow> store
    \<Rightarrow> response outcome" where
  "create_category isoformat now new_oid category s =
     insert_with_schema isoformat now new_oid ''housecategory'' (dump_category category) s"

definition update_category :: "(int \<Rightarrow> string) \<Rightarrow> int \<Rightarrow> string \<Rightarrow> (string \<rightharpoonup> json) \<Rightarrow> store
    \<Rightarrow> response outcome" where
  "update_category isoformat now cat_id payload s =
     update_by_id isoformat now ''housecategory'' cat_id payload s"

definition delete_category :: "string \<Rightarrow> store \<Rightarrow> bool outcome" where
  "delete_category cat_id s = delete_by_id ''housecategory'' cat_id s"

subsection \<open>Subcategories\<close>

definition list_subcategories :: "(int \<Rightarrow> string) \<Rightarrow> string option \<Rightarrow> store
    \<Rightarrow> response list" where
  "list_subcategories isoformat cat_filter s =
     (let q = (if truthy cat_filter
               then [(''category_id'', Eq (Plain (JStr (the cat_filter))))] else [])
      in map (\<lambda>d. to_str_id isoformat (Some d))
           (sort_created_desc (find_docs q (s ''subcategory''))))"

definition create_subcategory :: "(int \<Rightarrow> string) \<Rightarrow> int \<Rightarrow> string \<Rightarrow> Subcategory \<Rightarrow> store
    \<Rightarrow> response outcome" where
  "create_subcategory isoformat now new_oid sub s =
     (if \<not> is_valid (category_id sub) then (Inl (HTTPException 400 ''Invalid category_id''), s)
      else insert_with_schema isoformat now new_oid ''subcategory'' (dump_subcategory sub) s)"

definition update_subcategory :: "(int \<Rightarrow> string) \<Rightarrow> int \<Rightarrow> string \<Rightarrow> (string \<rightharpoonup> json)
    \<Rightarrow> store \<Rightarrow> response outcome" where
  "update_subcategory isoformat now sub_id payload s =
     update_by_id isoformat now ''subcategory'' sub_id payload s"

definition delete_subcategory :: "string \<Rightarrow> store \<Rightarrow> bool outcome" where
  "delete_subcategory sub_id s = delete_by_id ''subcategory'' sub_id s"

subsection \<open>Packages\<close>

definition list_packages :: "(int \<Rightarrow> string) \<Rightarrow> string option \<Rightarrow> string option \<Rightarrow> store
    \<Rightarrow> response list" where
  "list_packages isoformat cat_filter sub_filter s =
     (let q = (if truthy cat_filter
               then [(''category_id'', Eq (Plain (JStr (the cat_filter))))] else [])
              @ (if truthy sub_filter
                 then [(''subcategory_id'', Eq (Plain (JStr (the sub_filter))))] else [])
      in map (\<lambda>d. to_str_id isoformat (Some d))
           (sort_created_desc (find_docs q (s ''package''))))"

definition create_package :: "(int \<Rightarrow> string) \<Rightarrow> int \<Rightarrow> string \<Rightarrow> Package \<Rightarrow> store
    \<Rightarrow> response outcome" where
  "create_package isoformat now new_oid pkg s =
     (if truthy (pkg_category_id pkg) \<and> \<not> is_valid (the (pkg_category_id pkg))
        then (Inl (HTTPException 400 ''Invalid category_id''), s)
      else if truthy (pkg_subcategory_id pkg) \<and> \<not> is_valid (the (pkg_subcategory_id pkg))
        then (Inl (HTTPException 400 ''Invalid subcategory_id''), s)
      else insert_with_schema isoformat now new_oid ''package'' (dump_package pkg) s)"

definition update_package :: "(int \<Rightarrow> string) \<Rightarrow> int \<Rightarrow> string \<Rightarrow> (string \<rightharpoonup> json) \<Rightarrow> store
    \<Rightarrow> response outcome" where
  "update_package isoformat now pkg_id payload s =
     update_by_id isoformat now ''package'' pkg_id payload s"

definition delete_package :: "string \<Rightarrow> store \<Rightarrow> bool outcome" where
  "delete_package pkg_id s = delete_by_id ''package'' pkg_id s"

subsection \<open>Quotations\<close>

definition quotation_query :: "string option \<Rightarrow> string option \<Rightarrow> query" where
  "quotation_query emp_filter status_filter =
     (if truthy emp_filter
      then [(''employee_id'', Eq (Plain (JStr (the emp_filter))))] else [])
     @ (if truthy status_filter
        then [(''status'', Eq (Plain (JStr (the status_filter))))] else [])"

definition list_quotations :: "(int \<Rightarrow> string) \<Rightarrow> string option \<Rightarrow> string option \<Rightarrow> store
    \<Rightarrow> response list" where
  "list_quotations isoformat emp_filter status_filter s =
     (let q = quotation_query emp_filter status_filter
      in map (\<lambda>d. to_str_id isoformat (Some d))
           (sort_created_desc (find_docs q (s ''quotation''))))"

definition get_quotation :: "(int \<Rightarrow> string) \<Rightarrow> string \<Rightarrow> store \<Rightarrow> error + response" where
  "get_quotation isoformat quotation_id s =
     (if \<not> is_valid quotation_id then Inl (HTTPException 400 ''Invalid id'')
      else case find_one (ObjectId quotation_id) (s ''quotation'') of
             None \<Rightarrow> Inl (HTTPException 404 ''Not found'')
           | Some d \<Rightarrow> Inr (to_str_id isoformat (Some d)))"

definition create_quotation :: "(int \<Rightarrow> string) \<Rightarrow> int \<Rightarrow> string \<Rightarrow> Quotation \<Rightarrow> store
    \<Rightarrow> response outcome" where
  "create_quotation isoformat now new_oid quotation s =
     (if \<not> is_valid (employee_id quotation)
        then (Inl (HTTPException 400 ''Invalid employee_id''), s)
      else if truthy (house_category_id quotation)
              \<and> \<not> is_valid (the (house_category_id quotation))
        then (Inl (HTTPException 400 ''Invalid house_category_id''), s)
      else if truthy (subcategory_id quotation)
              \<and> \<not> is_valid (the (subcategory_id quotation))
        then (Inl (HTTPException 400 ''Invalid subcategory_id''), s)
      else
        let computed = (if items quotation \<noteq> []
                        then sum_list (map item_total (items quotation)) else 0);
            created =
              (if subtotal quotation = 0 \<and> computed \<noteq> 0
               then create_document now new_oid ''quotation''
                      ((dump_quotation quotation)
                         (''subtotal'' \<mapsto> Plain (JNum computed),
                          ''total'' \<mapsto> Plain (JNum (computed - discount quotation
                                                       + tax quotation))))
                      s
               else create_document now new_oid ''quotation'' (dump_quotation quotation) s)
        in (Inr (to_str_id isoformat
                   (find_one (ObjectId (fst created)) (snd created ''quotation''))),
            snd created))"

definition update_quotation :: "(int \<Rightarrow> string) \<Rightarrow> int \<Rightarrow> string \<Rightarrow> (string \<rightharpoonup> json)
    \<Rightarrow> store \<Rightarrow> response outcome" where
  "update_quotation isoformat now quotation_id payload s =
     update_by_id isoformat now ''quotation'' quotation_id payload s"

definition delete_quotation :: "string \<Rightarrow> store \<Rightarrow> bool outcome" where
  "delete_quotation quotation_id s = delete_by_id ''quotation'' quotation_id s"

subsection \<open>Performance summary\<close>


record summary =
  total_quotations :: nat
  last30_quotations :: nat
  total_revenue :: real
  avg_quote_value :: "real option"

text \<open>\<open>timedelta(days=n)\<close>, in milliseconds.\<close>

definition timedelta_days :: "int \<Rightarrow> int" where
  "timedelta_days n = n * 86400000"

text \<open>
  The loop over the aggregation's rows keeps the values of the last row; with no row,
  \<open>revenue\<close> and \<open>avg\<close> stay 0. The average is computed by the store, which never
  divides by a count of zero (see \<open>aggregate\<close>); a null average is \<open>None\<close>.
\<close>

definition performance :: "int \<Rightarrow> string \<Rightarrow> store \<Rightarrow> error + summary" where
  "performance now emp_id s =
     (if \<not> is_valid emp_id then Inl (HTTPException 400 ''Invalid employee_id'')
      else
        let q = [(''employee_id'', Eq (Plain (JStr emp_id)))];
            total_quotes = count_documents q (s ''quotation'');
            last30 = now - timedelta_days 30;
            last30_quotes =
              count_documents (q @ [(''created_at'', GteDate last30)]) (s ''quotation'');
            agg = aggregate q (s ''quotation'');
            looped = foldl (\<lambda>acc a. (revenue a, avg a)) (0, Some 0) agg
        in Inr \<lparr>total_quotations = total_quotes,
                last30_quotations = last30_quotes,
                total_revenue = fst looped,
                avg_quote_value = snd looped\<rparr>)"

section \<open>Observations and sample data\<close>

text \<open>The field \<open>k\<close> of the document with id \<open>i\<close> in a collection, and of a response.\<close>

definition stored_field :: "store \<Rightarrow> string \<Rightarrow> string \<Rightarrow> string \<Rightarrow> val option" where
  "stored_field s collection i k =
     (case find_one i (s collection) of None \<Rightarrow> None | Some d \<Rightarrow> flds d k)"

definition response_field :: "response \<Rightarrow> string \<Rightarrow> json option" where
  "response_field r k = (case r of None \<Rightarrow> None | Some m \<Rightarrow> m k)"

definition empty_store :: store where
  "empty_store = (\<lambda>c. [])"

definition iso_sample :: "int \<Rightarrow> string" where
  "iso_sample t = ''2026-01-01T00:00:00+00:00''"

definition oid_a :: string where
  "oid_a = ''65a1b2c3d4e5f60718293a4b''"

definition oid_b :: string where
  "oid_b = ''65a1b2c3d4e5f60718293a4c''"

definition oid_c :: string where
  "oid_c = ''65a1b2c3d4e5f60718293a4d''"

definition oid_d :: string where
  "oid_d = ''65a1b2c3d4e5f60718293a4e''"

definition oid_e :: string where
  "oid_e = ''0123456789abcdef01234567''"

definition item_sample :: "real \<Rightarrow> QuotationItem" where
  "item_sample t =
     \<lparr>package_id = oid_b, item_name = None, quantity = 1, unit_price = t, item_total = t\<rparr>"

definition quotation_sample :: "real list \<Rightarrow> real \<Rightarrow> real \<Rightarrow> real \<Rightarrow> real \<Rightarrow> Quotation" where
  "quotation_sample totals sub dis tx tot =
     \<lparr>employee_id = oid_e, client_name = ''Ada'', client_contact = None,
      house_category_id = None, subcategory_id = None,
      items = map item_sample totals,
      subtotal = sub, discount = dis, tax = tx, total = tot,
      status = draft, quotation_notes = None\<rparr>"

text \<open>An outcome that is an HTTP 400 error.\<close>

definition rejected_400 :: "error + 'a \<Rightarrow> bool" where
  "rejected_400 r = (case r of Inl (HTTPException code detail) \<Rightarrow> code = 400 | _ \<Rightarrow> False)"

text \<open>The quotations of an employee.\<close>

definition quotations_of :: "string \<Rightarrow> store \<Rightarrow> document list" where
  "quotations_of emp_id s =
     filter (\<lambda>d. flds d ''employee_id'' = Some (Plain (JStr emp_id))) (s ''quotation'')"

text \<open>
  The window of the specification: the creation timestamp lies in the 30 days that end
  at \<open>now\<close>, both ends included.
\<close>

definition created_in_window :: "int \<Rightarrow> document \<Rightarrow> bool" where
  "created_in_window now d =
     (case flds d ''created_at'' of
        Some (DateTime t) \<Rightarrow> now - timedelta_days 30 \<le> t \<and> t \<le> now
      | _ \<Rightarrow> False)"

text \<open>No document of the list carries a creation timestamp later than \<open>now\<close>.\<close>

definition no_future :: "int \<Rightarrow> document list \<Rightarrow> bool" where
  "no_future now docs =
     list_all (\<lambda>d. case flds d ''created_at'' of Some (DateTime t) \<Rightarrow> t \<le> now | _ \<Rightarrow> True) docs"

text \<open>
  The name of a top-level field: not empty, not \<open>_id\<close>, without a dot (the store
  reads a dotted key of \<open>$set\<close> as a path into a nested value) and not starting with a
  dollar sign (the store reads it as an operator).
\<close>

definition field_name :: "string \<Rightarrow> bool" where
  "field_name k = (k \<noteq> [] \<and> k \<noteq> ''_id'' \<and> CHR ''.'' \<notin> set k \<and> hd k \<noteq> CHR ''$'')"

text \<open>
  The listing as the specification words it: a record is listed when each supplied
  filter equals its field, both filters optional; and newest-created-first.
\<close>

definition quotation_filter :: "string option \<Rightarrow> string option \<Rightarrow> document \<Rightarrow> bool" where
  "quotation_filter emp_filter status_filter d =
     ((truthy emp_filter \<longrightarrow> flds d ''employee_id'' = Some (Plain (JStr (the emp_filter))))
      \<and> (truthy status_filter \<longrightarrow> flds d ''status'' = Some (Plain (JStr (the status_filter)))))"

definition newest_first :: "document list \<Rightarrow> bool" where
  "newest_first docs = sorted_wrt (\<lambda>a b. created_key b \<le> created_key a) docs"

text \<open>Sample data.\<close>

definition quotation_doc :: "string \<Rightarrow> string \<Rightarrow> string \<Rightarrow> real \<Rightarrow> int \<Rightarrow> document" where
  "quotation_doc i emp st tot t =
     \<lparr>oid = i,
      flds = [''employee_id'' \<mapsto> Plain (JStr emp),
              ''client_name'' \<mapsto> Plain (JStr ''Ada''),
              ''status'' \<mapsto> Plain (JStr st),
              ''subtotal'' \<mapsto> Plain (JNum tot),
              ''total'' \<mapsto> Plain (JNum tot),
              ''created_at'' \<mapsto> DateTime t,
              ''updated_at'' \<mapsto> DateTime t]\<rparr>"

definition day :: int where
  "day = 86400000"

definition store_sample :: store where
  "store_sample =
     empty_store(''quotation'' :=
       [quotation_doc oid_a oid_e ''approved'' 100 (10 * day),
        quotation_doc oid_b oid_e ''draft'' 50 (50 * day),
        quotation_doc oid_c oid_b ''approved'' 70 (55 * day),
        quotation_doc oid_d oid_e ''approved'' 30 (58 * day)])"

definition package_sample :: "string option \<Rightarrow> string option \<Rightarrow> Package" where
  "package_sample cat sub =
     \<lparr>pkg_name = ''Basic'', pkg_description = None, pkg_category_id = cat,
      pkg_subcategory_id = sub, features = [], price = 10, pkg_is_active = True\<rparr>"

definition subcategory_sample :: "string \<Rightarrow> Subcategory" where
  "subcategory_sample cat =
     \<lparr>sub_name = ''2BHK'', sub_description = None, category_id = cat, sub_is_active = True\<rparr>"

section \<open>Basic facts about the store operations\<close>

lemma lower_idem: "lower (lower c) = lower c"
  by (simp add: lower_def)

lemma is_hex_lower: "is_hex c \<Longrightarrow> is_hex (lower c) \<and> \<not> is_space (lower c)"
  by (auto simp: is_hex_def is_space_def hexdigits_def whitespace_def lower_def)

lemma fromhex_idem: "fromhex x = Some bs \<Longrightarrow> fromhex bs = Some bs"
proof (induction x arbitrary: bs rule: fromhex.induct)
  case 1
  then show ?case by simp
next
  case (2 c)
  then show ?case by (simp split: if_splits)
next
  case (3 c d cs)
  then show ?case
    by (auto simp: is_hex_lower lower_idem split: if_splits option.splits)
qed

lemma ObjectId_idem: "ObjectId (ObjectId x) = ObjectId x"
  by (cases "fromhex x") (simp_all add: ObjectId_def fromhex_idem)

text \<open>
  A 24-character string with whitespace between bytes is a valid id (of 11 bytes here);
  one with whitespace inside a byte is not.
\<close>

lemma is_valid_with_whitespace:
  "is_valid ''0123456789abcdef  123456''
   \<and> ObjectId ''0123456789abcdef  123456'' = ''0123456789abcdef123456''"
  by (simp add: is_valid_def ObjectId_def is_hex_def is_space_def hexdigits_def whitespace_def
        lower_def)

lemma not_valid_split_byte: "\<not> is_valid ''0123456789abcde f0123456''"
  by (simp add: is_valid_def is_hex_def is_space_def hexdigits_def whitespace_def)

lemma find_one_append:
  "find_one i (docs @ [d]) =
     (case find_one i docs of Some x \<Rightarrow> Some x | None \<Rightarrow> if oid d = i then Some d else None)"
  by (induction docs) auto

lemma fromhex_oid_a: "fromhex oid_a = Some oid_a"
  by (simp add: oid_a_def is_hex_def is_space_def hexdigits_def whitespace_def lower_def)

lemma is_valid_oid_a: "is_valid oid_a"
  using fromhex_oid_a by (simp add: is_valid_def) (simp add: oid_a_def)

lemma is_valid_oid_e: "is_valid oid_e"
  by (simp add: is_valid_def oid_e_def is_hex_def is_space_def hexdigits_def whitespace_def)

lemma fst_create_document [simp]:
  "fst (create_document now new_oid c data s) = ObjectId new_oid"
  by (simp add: create_document_def)

lemma create_document_lookup:
  "find_one (ObjectId new_oid) (s c) = None \<Longrightarrow>
   find_one (ObjectId new_oid) (snd (create_document now new_oid c data s) c)
   = Some \<lparr>oid = ObjectId new_oid,
           flds = data(''created_at'' \<mapsto> DateTime now, ''updated_at'' \<mapsto> DateTime now)\<rparr>"
  by (simp add: create_document_def insert_one_def find_one_append)

section \<open>Creating a quotation\<close>

text \<open>The reference checks are the only way a create request fails.\<close>

lemma create_quotation_succeeds_iff:
  "isl (fst (create_quotation isoformat now new_oid q s)) \<longleftrightarrow>
     \<not> is_valid (employee_id q)
     \<or> (truthy (house_category_id q) \<and> \<not> is_valid (the (house_category_id q)))
     \<or> (truthy (subcategory_id q) \<and> \<not> is_valid (the (subcategory_id q)))"
  by (simp add: create_quotation_def Let_def)

text \<open>
  Claim C1. A create request that passes the reference checks, with a supplied subtotal
  of exactly 0 and items whose totals sum to a nonzero \<open>S\<close>, is stored (and returned)
  with subtotal \<open>S\<close> and total \<open>S - discount + tax\<close>. The identifier the store assigns
  is new to the collection.
\<close>

theorem create_quotation_sentinel_override:
  assumes ok: "fst (create_quotation isoformat now new_oid q s) = Inr r"
    and sub0: "subtotal q = 0"
    and S: "sum_list (map item_total (items q)) = S"
    and nz: "S \<noteq> 0"
    and fresh: "find_one (ObjectId new_oid) (s ''quotation'') = None"
  shows "stored_field (snd (create_quotation isoformat now new_oid q s)) ''quotation''
            (ObjectId new_oid) ''subtotal'' = Some (Plain (JNum S))
       \<and> stored_field (snd (create_quotation isoformat now new_oid q s)) ''quotation''
            (ObjectId new_oid) ''total'' = Some (Plain (JNum (S - discount q + tax q)))
       \<and> response_field r ''subtotal'' = Some (JNum S)
       \<and> response_field r ''total'' = Some (JNum (S - discount q + tax q))"
proof -
  have ne: "items q \<noteq> []" using S nz by auto
  show ?thesis
    using ok sub0 S nz ne fresh
    by (auto simp: create_quotation_def Let_def ObjectId_idem create_document_lookup
          stored_field_def response_field_def to_str_id_def split: if_splits)
qed

lemma ObjectId_oid_a: "ObjectId oid_a = oid_a"
  by (simp add: ObjectId_def fromhex_oid_a)

theorem create_quotation_sentinel_override_witness:
  "fst (create_quotation iso_sample 1000 oid_a (quotation_sample [100, 50] 0 10 5 0) empty_store)
     = Inr (projr (fst (create_quotation iso_sample 1000 oid_a
                          (quotation_sample [100, 50] 0 10 5 0) empty_store)))
   \<and> subtotal (quotation_sample [100, 50] 0 10 5 0) = 0
   \<and> sum_list (map item_total (items (quotation_sample [100, 50] 0 10 5 0))) = 150
   \<and> find_one (ObjectId oid_a) (empty_store ''quotation'') = None
   \<and> stored_field (snd (create_quotation iso_sample 1000 oid_a
                           (quotation_sample [100, 50] 0 10 5 0) empty_store))
         ''quotation'' (ObjectId oid_a) ''subtotal'' = Some (Plain (JNum 150))
   \<and> stored_field (snd (create_quotation iso_sample 1000 oid_a
                           (quotation_sample [100, 50] 0 10 5 0) empty_store))
         ''quotation'' (ObjectId oid_a) ''total'' = Some (Plain (JNum 145))
   \<and> response_field (projr (fst (create_quotation iso_sample 1000 oid_a
                                    (quotation_sample [100, 50] 0 10 5 0) empty_store)))
         ''total'' = Some (JNum 145)"
proof -
  let ?q = "quotation_sample [100, 50] 0 10 5 0"
  let ?out = "create_quotation iso_sample 1000 oid_a ?q empty_store"
  have ok: "fst ?out = Inr (projr (fst ?out))"
    by (simp add: create_quotation_def quotation_sample_def is_valid_oid_e truthy_def Let_def)
  have sub0: "subtotal ?q = 0"
    by (simp add: quotation_sample_def)
  have S: "sum_list (map item_total (items ?q)) = 150"
    by (simp add: quotation_sample_def item_sample_def)
  have dt: "discount ?q = 10" "tax ?q = 5"
    by (simp_all add: quotation_sample_def)
  have fresh: "find_one (ObjectId oid_a) (empty_store ''quotation'') = None"
    by (simp add: empty_store_def)
  show ?thesis
    using create_quotation_sentinel_override [OF ok sub0 S _ fresh] ok sub0 S fresh dt
    by simp
qed

text \<open>
  Claim C2. A create request that passes the reference checks and does not trigger the
  override (the supplied subtotal is nonzero, or the items' totals sum to 0) is stored
  as the caller sent it: subtotal and total are the supplied values, and the stored
  fields are the dumped request and the two timestamps, whatever the items sum to.
\<close>

theorem create_quotation_supplied_kept:
  assumes ok: "fst (create_quotation isoformat now new_oid q s) = Inr r"
    and no_override: "subtotal q \<noteq> 0 \<or> sum_list (map item_total (items q)) = 0"
    and fresh: "find_one (ObjectId new_oid) (s ''quotation'') = None"
  shows "stored_field (snd (create_quotation isoformat now new_oid q s)) ''quotation''
            (ObjectId new_oid) ''subtotal'' = Some (Plain (JNum (subtotal q)))
       \<and> stored_field (snd (create_quotation isoformat now new_oid q s)) ''quotation''
            (ObjectId new_oid) ''total'' = Some (Plain (JNum (total q)))
       \<and> response_field r ''subtotal'' = Some (JNum (subtotal q))
       \<and> response_field r ''total'' = Some (JNum (total q))
       \<and> map_option flds (find_one (ObjectId new_oid)
                            (snd (create_quotation isoformat now new_oid q s) ''quotation''))
           = Some ((dump_quotation q)(''created_at'' \<mapsto> DateTime now,
                                      ''updated_at'' \<mapsto> DateTime now))"
  using ok no_override fresh
  by (auto simp: create_quotation_def Let_def ObjectId_idem create_document_lookup
        stored_field_def response_field_def to_str_id_def dump_quotation_def
        split: if_splits)

theorem create_quotation_supplied_kept_witness:
  "fst (create_quotation iso_sample 1000 oid_a (quotation_sample [100] 200 0 0 200) empty_store)
     = Inr (projr (fst (create_quotation iso_sample 1000 oid_a
                          (quotation_sample [100] 200 0 0 200) empty_store)))
   \<and> subtotal (quotation_sample [100] 200 0 0 200) = 200
   \<and> sum_list (map item_total (items (quotation_sample [100] 200 0 0 200))) = 100
   \<and> find_one (ObjectId oid_a) (empty_store ''quotation'') = None
   \<and> stored_field (snd (create_quotation iso_sample 1000 oid_a
                           (quotation_sample [100] 200 0 0 200) empty_store))
         ''quotation'' (ObjectId oid_a) ''subtotal'' = Some (Plain (JNum 200))
   \<and> stored_field (snd (create_quotation iso_sample 1000 oid_a
                           (quotation_sample [100] 200 0 0 200) empty_store))
         ''quotation'' (ObjectId oid_a) ''total'' = Some (Plain (JNum 200))"
proof -
  let ?q = "quotation_sample [100] 200 0 0 200"
  let ?out = "create_quotation iso_sample 1000 oid_a ?q empty_store"
  have ok: "fst ?out = Inr (projr (fst ?out))"
    by (simp add: create_quotation_def quotation_sample_def is_valid_oid_e truthy_def Let_def)
  have sub: "subtotal ?q = 200" and tot: "total ?q = 200"
    by (simp_all add: quotation_sample_def)
  have S: "sum_list (map item_total (items ?q)) = 100"
    by (simp add: quotation_sample_def item_sample_def)
  have no_override: "subtotal ?q \<noteq> 0 \<or> sum_list (map item_total (items ?q)) = 0"
    using sub by simp
  have fresh: "find_one (ObjectId oid_a) (empty_store ''quotation'') = None"
    by (simp add: empty_store_def)
  show ?thesis
    using create_quotation_supplied_kept [OF ok no_override fresh] ok sub tot S fresh
    by simp
qed

section \<open>Filters\<close>

lemma find_docs_all: "find_docs [] docs = docs"
  by (simp add: find_docs_def matches_def)

lemma matches_single_Eq: "matches [(k, Eq v)] = (\<lambda>d. flds d k = Some v)"
  by (rule ext) (simp add: matches_def)

lemma matches_append: "matches (q @ q') = (\<lambda>d. matches q d \<and> matches q' d)"
  by (rule ext) (simp add: matches_def)

lemma find_docs_employee:
  "find_docs [(''employee_id'', Eq (Plain (JStr emp_id)))] (s ''quotation'') = quotations_of emp_id s"
  by (simp add: find_docs_def quotations_of_def matches_single_Eq)

lemma find_docs_append: "find_docs (q @ q') docs = filter (matches q') (find_docs q docs)"
  by (simp add: find_docs_def matches_append)

lemma not_valid_xyz: "\<not> is_valid ''xyz''"
  by (simp add: is_valid_def)

lemma not_valid_empty: "\<not> is_valid ''''"
  by (simp add: is_valid_def)

section \<open>Identifier validation\<close>

text \<open>
  An id that \<open>is_valid\<close> accepts with whitespace in it goes past the checks like any
  other: reading it finds no record, and a subcategory that refers to it is stored.
\<close>

lemma whitespace_id_passes_checks:
  "get_quotation iso_sample ''0123456789abcdef  123456'' store_sample
     = Inl (HTTPException 404 ''Not found'')
   \<and> \<not> isl (fst (create_subcategory iso_sample 1000 oid_a
                     (subcategory_sample ''0123456789abcdef  123456'') empty_store))
   \<and> map oid (snd (create_subcategory iso_sample 1000 oid_a
                      (subcategory_sample ''0123456789abcdef  123456'') empty_store)
                ''subcategory'') = [oid_a]"
proof -
  have v: "is_valid ''0123456789abcdef  123456''"
    and o: "ObjectId ''0123456789abcdef  123456'' = ''0123456789abcdef123456''"
    using is_valid_with_whitespace by simp_all
  have g: "get_quotation iso_sample ''0123456789abcdef  123456'' store_sample
     = Inl (HTTPException 404 ''Not found'')"
    by (simp add: get_quotation_def v o store_sample_def quotation_doc_def
          oid_a_def oid_b_def oid_c_def oid_d_def)
  have c: "\<not> isl (fst (create_subcategory iso_sample 1000 oid_a
                     (subcategory_sample ''0123456789abcdef  123456'') empty_store))"
    "map oid (snd (create_subcategory iso_sample 1000 oid_a
                      (subcategory_sample ''0123456789abcdef  123456'') empty_store)
                ''subcategory'') = [oid_a]"
    by (simp_all add: create_subcategory_def subcategory_sample_def v insert_with_schema_def
          create_document_def insert_one_def empty_store_def ObjectId_oid_a)
  show ?thesis
    using g c by simp
qed

text \<open>
  Claim C3, as stated, fails: the list endpoints never check a filter (a filter that is
  not a well-formed id gives a normal, here empty, listing), an update stores whatever
  reference its payload carries, and an optional reference that is the empty string
  counts as absent, so the package is stored with it.
\<close>

theorem invalid_id_not_always_rejected:
  "\<not> is_valid ''xyz''
   \<and> list_quotations iso_sample (Some ''xyz'') None empty_store = []
   \<and> \<not> isl (fst (update_by_id iso_sample (61 * day) ''quotation'' oid_a
                     [''employee_id'' \<mapsto> JStr ''xyz''] store_sample))
   \<and> stored_field (snd (update_by_id iso_sample (61 * day) ''quotation'' oid_a
                           [''employee_id'' \<mapsto> JStr ''xyz''] store_sample))
         ''quotation'' oid_a ''employee_id'' = Some (Plain (JStr ''xyz''))
   \<and> \<not> is_valid ''''
   \<and> \<not> isl (fst (create_package iso_sample 1000 oid_a (package_sample (Some '''') None)
                     empty_store))
   \<and> map oid (snd (create_package iso_sample 1000 oid_a (package_sample (Some '''') None)
                      empty_store) ''package'') = [oid_a]
   \<and> stored_field (snd (create_package iso_sample 1000 oid_a (package_sample (Some '''') None)
                           empty_store)) ''package'' oid_a ''category_id''
       = Some (Plain (JStr ''''))"
proof -
  have listing: "list_quotations iso_sample (Some ''xyz'') None empty_store = []"
    by (simp add: list_quotations_def quotation_query_def truthy_def empty_store_def
          find_docs_def sort_created_desc_def)
  have updating:
    "\<not> isl (fst (update_by_id iso_sample (61 * day) ''quotation'' oid_a
                    [''employee_id'' \<mapsto> JStr ''xyz''] store_sample))"
    "stored_field (snd (update_by_id iso_sample (61 * day) ''quotation'' oid_a
                          [''employee_id'' \<mapsto> JStr ''xyz''] store_sample))
        ''quotation'' oid_a ''employee_id'' = Some (Plain (JStr ''xyz''))"
    by (simp_all add: update_by_id_def is_valid_oid_a ObjectId_oid_a Let_def store_sample_def
          quotation_doc_def stored_field_def)
  have creating:
    "\<not> isl (fst (create_package iso_sample 1000 oid_a (package_sample (Some '''') None)
                    empty_store))"
    "map oid (snd (create_package iso_sample 1000 oid_a (package_sample (Some '''') None)
                     empty_store) ''package'') = [oid_a]"
    "stored_field (snd (create_package iso_sample 1000 oid_a (package_sample (Some '''') None)
                          empty_store)) ''package'' oid_a ''category_id''
       = Some (Plain (JStr ''''))"
    by (simp_all add: truthy_def empty_store_def create_package_def package_sample_def
          insert_with_schema_def create_document_def insert_one_def ObjectId_oid_a
          stored_field_def dump_package_def opt_str_def)
  show ?thesis
    using not_valid_xyz not_valid_empty listing updating creating by simp
qed

text \<open>
  Claim C3, amended. For an id \<open>x\<close> that is not well-formed: reading, updating and
  deleting by the path id \<open>x\<close>, the performance summary of employee \<open>x\<close>, creating a
  subcategory of category \<open>x\<close> and creating a quotation of employee \<open>x\<close> fail with
  status 400, and so do creating a package or a quotation with the nonempty optional
  reference \<open>x\<close>; in each case the store is left as it was.
\<close>

theorem invalid_id_rejected:
  assumes bad: "\<not> is_valid x"
  shows "get_quotation isoformat x s = Inl (HTTPException 400 ''Invalid id'')
       \<and> update_by_id isoformat now c x payload s = (Inl (HTTPException 400 ''Invalid id''), s)
       \<and> delete_by_id c x s = (Inl (HTTPException 400 ''Invalid id''), s)
       \<and> performance now x s = Inl (HTTPException 400 ''Invalid employee_id'')
       \<and> (category_id sub = x \<longrightarrow>
            create_subcategory isoformat now new_oid sub s
              = (Inl (HTTPException 400 ''Invalid category_id''), s))
       \<and> (employee_id q = x \<longrightarrow>
            create_quotation isoformat now new_oid q s
              = (Inl (HTTPException 400 ''Invalid employee_id''), s))
       \<and> (x \<noteq> [] \<and> (pkg_category_id pkg = Some x \<or> pkg_subcategory_id pkg = Some x) \<longrightarrow>
            rejected_400 (fst (create_package isoformat now new_oid pkg s))
            \<and> snd (create_package isoformat now new_oid pkg s) = s)
       \<and> (x \<noteq> [] \<and> (house_category_id q = Some x \<or> subcategory_id q = Some x) \<longrightarrow>
            rejected_400 (fst (create_quotation isoformat now new_oid q s))
            \<and> snd (create_quotation isoformat now new_oid q s) = s)"
  using bad
  by (auto simp: get_quotation_def update_by_id_def delete_by_id_def performance_def
        create_subcategory_def create_quotation_def create_package_def rejected_400_def
        truthy_def)

theorem invalid_id_rejected_witness:
  "\<not> is_valid ''xyz''
   \<and> get_quotation iso_sample ''xyz'' store_sample = Inl (HTTPException 400 ''Invalid id'')
   \<and> update_by_id iso_sample 1000 ''quotation'' ''xyz'' [''status'' \<mapsto> JStr ''sent''] store_sample
        = (Inl (HTTPException 400 ''Invalid id''), store_sample)
   \<and> delete_by_id ''quotation'' ''xyz'' store_sample
        = (Inl (HTTPException 400 ''Invalid id''), store_sample)
   \<and> performance 1000 ''xyz'' store_sample = Inl (HTTPException 400 ''Invalid employee_id'')
   \<and> category_id (subcategory_sample ''xyz'') = ''xyz''
   \<and> create_subcategory iso_sample 1000 oid_a (subcategory_sample ''xyz'') store_sample
        = (Inl (HTTPException 400 ''Invalid category_id''), store_sample)
   \<and> employee_id ((quotation_sample [] 0 0 0 0)
          \<lparr>employee_id := ''xyz'', house_category_id := Some ''xyz''\<rparr>) = ''xyz''
   \<and> house_category_id ((quotation_sample [] 0 0 0 0)
          \<lparr>employee_id := ''xyz'', house_category_id := Some ''xyz''\<rparr>) = Some ''xyz''
   \<and> create_quotation iso_sample 1000 oid_a
        ((quotation_sample [] 0 0 0 0)\<lparr>employee_id := ''xyz'', house_category_id := Some ''xyz''\<rparr>)
        store_sample
        = (Inl (HTTPException 400 ''Invalid employee_id''), store_sample)
   \<and> pkg_subcategory_id (package_sample None (Some ''xyz'')) = Some ''xyz''
   \<and> rejected_400 (fst (create_package iso_sample 1000 oid_a (package_sample None (Some ''xyz''))
                            store_sample))
   \<and> snd (create_package iso_sample 1000 oid_a (package_sample None (Some ''xyz'')) store_sample)
        = store_sample"
proof -
  let ?q = "(quotation_sample [] 0 0 0 0)
              \<lparr>employee_id := ''xyz'', house_category_id := Some ''xyz''\<rparr>"
  have c: "category_id (subcategory_sample ''xyz'') = ''xyz''"
    by (simp add: subcategory_sample_def)
  have p: "pkg_subcategory_id (package_sample None (Some ''xyz'')) = Some ''xyz''"
    by (simp add: package_sample_def)
  have e: "employee_id ?q = ''xyz''" and h: "house_category_id ?q = Some ''xyz''"
    by simp_all
  show ?thesis
    using invalid_id_rejected [OF not_valid_xyz, of iso_sample store_sample 1000 "''quotation''"
        "[''status'' \<mapsto> JStr ''sent'']" "subcategory_sample ''xyz''" oid_a ?q
        "package_sample None (Some ''xyz'')"]
      not_valid_xyz c p e h
    by simp
qed

section \<open>Performance summary\<close>

text \<open>
  Claim C6. For an employee without quotations the summary is 0, 0, 0, 0: the call
  returns (no exception, so no division error), the aggregation has no row and the
  average keeps its initial value.
\<close>

theorem performance_no_quotations:
  assumes "is_valid emp_id" and "quotations_of emp_id s = []"
  shows "performance now emp_id s
           = Inr \<lparr>total_quotations = 0, last30_quotations = 0, total_revenue = 0,
                  avg_quote_value = Some 0\<rparr>"
proof -
  let ?q = "[(''employee_id'', Eq (Plain (JStr emp_id)))]"
  have m: "find_docs ?q (s ''quotation'') = []"
    using assms(2) by (simp add: find_docs_employee)
  have m30: "find_docs (?q @ [(''created_at'', GteDate t)]) (s ''quotation'') = []" for t
    using m by (simp only: find_docs_append filter.simps)
  show ?thesis
    using assms(1) m m30
    by (simp add: performance_def count_documents_def aggregate_def Let_def)
qed

theorem performance_no_quotations_witness:
  "is_valid oid_e \<and> quotations_of oid_e empty_store = []
   \<and> performance 1000 oid_e empty_store
       = Inr \<lparr>total_quotations = 0, last30_quotations = 0, total_revenue = 0,
              avg_quote_value = Some 0\<rparr>"
proof -
  have e: "quotations_of oid_e empty_store = []"
    by (simp add: quotations_of_def empty_store_def)
  show ?thesis
    using performance_no_quotations [OF is_valid_oid_e e, of 1000] is_valid_oid_e e
    by simp
qed

text \<open>
  Claim C9. In every store and for every employee, the 30-day count of the summary is
  at most its total count.
\<close>

theorem last30_le_total:
  assumes "performance now emp_id s = Inr r"
  shows "last30_quotations r \<le> total_quotations r"
proof -
  let ?q = "[(''employee_id'', Eq (Plain (JStr emp_id)))]"
  let ?w = "[(''created_at'', GteDate (now - timedelta_days 30))]"
  have r: "r = \<lparr>total_quotations = count_documents ?q (s ''quotation''),
                 last30_quotations = count_documents (?q @ ?w) (s ''quotation''),
                 total_revenue = total_revenue r, avg_quote_value = avg_quote_value r\<rparr>"
    using assms by (auto simp: performance_def Let_def split: if_splits)
  have "count_documents (?q @ ?w) (s ''quotation'') \<le> count_documents ?q (s ''quotation'')"
    by (simp only: count_documents_def find_docs_append length_filter_le)
  then show ?thesis
    by (subst r, subst (2) r) simp
qed

theorem last30_le_total_witness:
  "performance (60 * day) oid_e store_sample
     = Inr \<lparr>total_quotations = 3, last30_quotations = 2, total_revenue = 180,
            avg_quote_value = Some 60\<rparr>
   \<and> last30_quotations \<lparr>total_quotations = 3, last30_quotations = 2, total_revenue = 180,
            avg_quote_value = Some 60\<rparr>
       \<le> total_quotations \<lparr>total_quotations = 3, last30_quotations = 2, total_revenue = 180,
            avg_quote_value = Some (60::real)\<rparr>"
proof -
  have p: "performance (60 * day) oid_e store_sample
     = Inr \<lparr>total_quotations = 3, last30_quotations = 2, total_revenue = 180,
            avg_quote_value = Some 60\<rparr>"
    by (simp add: performance_def Let_def count_documents_def find_docs_def
          matches_def store_sample_def empty_store_def quotation_doc_def aggregate_def
          numeric_totals_def timedelta_days_def day_def oid_e_def oid_b_def
          is_valid_def is_hex_def is_space_def hexdigits_def whitespace_def)
  show ?thesis
    using last30_le_total [OF p] p by simp
qed

section \<open>Listing\<close>

text \<open>
  Claim C10. On the list endpoints a filter given as the empty string is read as no
  filter: the listing is the one without that filter, and with no other filter it is
  the whole collection.
\<close>

theorem empty_filter_is_absent:
  "list_users isoformat (Some '''') s = list_users isoformat None s
   \<and> list_users isoformat (Some '''') s
       = map (\<lambda>d. to_str_id isoformat (Some d)) (sort_created_desc (s ''user''))
   \<and> list_subcategories isoformat (Some '''') s = list_subcategories isoformat None s
   \<and> list_subcategories isoformat (Some '''') s
       = map (\<lambda>d. to_str_id isoformat (Some d)) (sort_created_desc (s ''subcategory''))
   \<and> list_packages isoformat (Some '''') sub_filter s = list_packages isoformat None sub_filter s
   \<and> list_packages isoformat cat_filter (Some '''') s = list_packages isoformat cat_filter None s
   \<and> list_packages isoformat (Some '''') (Some '''') s
       = map (\<lambda>d. to_str_id isoformat (Some d)) (sort_created_desc (s ''package''))
   \<and> list_quotations isoformat (Some '''') status_filter s
       = list_quotations isoformat None status_filter s
   \<and> list_quotations isoformat emp_filter (Some '''') s
       = list_quotations isoformat emp_filter None s
   \<and> list_quotations isoformat (Some '''') (Some '''') s
       = map (\<lambda>d. to_str_id isoformat (Some d)) (sort_created_desc (s ''quotation''))"
  by (simp add: list_users_def list_subcategories_def list_packages_def list_quotations_def
        quotation_query_def truthy_def find_docs_all)

section \<open>Update and delete by id\<close>

lemma find_one_None_iff: "find_one i ds = None \<longleftrightarrow> i \<notin> oid ` set ds"
  by (induction ds) auto

lemma find_one_SomeD: "find_one i ds = Some d \<Longrightarrow> oid d = i \<and> d \<in> set ds"
  by (induction ds) (auto split: if_splits)

lemma fst_find_one_and_update:
  "fst (find_one_and_update i p ds) = map_option (\<lambda>d. d\<lparr>flds := flds d ++ p\<rparr>) (find_one i ds)"
  by (induction ds) auto

lemma find_one_after_update:
  "find_one j (snd (find_one_and_update i p ds)) =
     (if j = i then map_option (\<lambda>d. d\<lparr>flds := flds d ++ p\<rparr>) (find_one i ds)
      else find_one j ds)"
  by (induction ds) auto

lemma oids_after_update: "map oid (snd (find_one_and_update i p ds)) = map oid ds"
  by (induction ds) auto

lemma update_no_match: "find_one i ds = None \<Longrightarrow> snd (find_one_and_update i p ds) = ds"
  by (induction ds) (auto split: if_splits)

lemma fst_delete_one: "fst (delete_one i ds) = (if find_one i ds = None then 0 else 1)"
  by (induction ds) auto

lemma delete_no_match: "find_one i ds = None \<Longrightarrow> snd (delete_one i ds) = ds"
  by (induction ds) (auto split: if_splits)

lemma set_after_delete: "set (snd (delete_one i ds)) \<subseteq> set ds"
  by (induction ds) auto

lemma distinct_after_delete:
  "distinct (map oid ds) \<Longrightarrow> distinct (map oid (snd (delete_one i ds)))"
proof (induction ds)
  case Nil
  then show ?case by simp
next
  case (Cons d ds)
  have "oid d \<notin> oid ` set (snd (delete_one i ds))"
    using Cons.prems set_after_delete [of i ds] by auto
  with Cons show ?case by auto
qed

lemma find_one_after_delete:
  "distinct (map oid ds) \<Longrightarrow> find_one i (snd (delete_one i ds)) = None"
  by (induction ds) (auto simp: find_one_None_iff)

lemma find_other_after_delete:
  "j \<noteq> i \<Longrightarrow> find_one j (snd (delete_one i ds)) = find_one j ds"
  by (induction ds) auto

text \<open>
  Claim C7. For an id that exists in a collection, the first delete succeeds and a
  second delete of the same id answers 404 Not found, leaving the store as the first
  delete left it. Ids are unique within a collection: the store's index on \<open>_id\<close>
  guarantees it, and the endpoints keep it (see \<open>create_document_unique_ids\<close>,
  \<open>update_by_id_unique_ids\<close> and \<open>delete_by_id_unique_ids\<close>).
\<close>

theorem delete_twice_not_found:
  assumes valid: "is_valid x"
    and existing: "find_one (ObjectId x) (s c) \<noteq> None"
    and unique: "distinct (map oid (s c))"
  shows "fst (delete_by_id c x s) = Inr True
       \<and> find_one (ObjectId x) (snd (delete_by_id c x s) c) = None
       \<and> delete_by_id c x (snd (delete_by_id c x s))
           = (Inl (HTTPException 404 ''Not found''), snd (delete_by_id c x s))"
proof -
  let ?ds = "snd (delete_one (ObjectId x) (s c))"
  have first: "delete_by_id c x s = (Inr True, s(c := ?ds))"
    using valid existing by (simp add: delete_by_id_def Let_def fst_delete_one)
  have gone: "find_one (ObjectId x) ?ds = None"
    using unique by (rule find_one_after_delete)
  have second: "delete_by_id c x (s(c := ?ds)) = (Inl (HTTPException 404 ''Not found''), s(c := ?ds))"
    using valid gone by (simp add: delete_by_id_def Let_def fst_delete_one delete_no_match)
  show ?thesis
    using first gone second by simp
qed

theorem delete_twice_not_found_witness:
  "is_valid oid_a
   \<and> find_one (ObjectId oid_a) (store_sample ''quotation'') \<noteq> None
   \<and> distinct (map oid (store_sample ''quotation''))
   \<and> fst (delete_by_id ''quotation'' oid_a store_sample) = Inr True
   \<and> map oid (snd (delete_by_id ''quotation'' oid_a store_sample) ''quotation'')
       = [oid_b, oid_c, oid_d]
   \<and> fst (delete_by_id ''quotation'' oid_a (snd (delete_by_id ''quotation'' oid_a store_sample)))
       = Inl (HTTPException 404 ''Not found'')"
proof -
  have existing: "find_one (ObjectId oid_a) (store_sample ''quotation'') \<noteq> None"
    by (simp add: ObjectId_oid_a store_sample_def quotation_doc_def)
  have unique: "distinct (map oid (store_sample ''quotation''))"
    by (simp add: store_sample_def quotation_doc_def oid_a_def oid_b_def oid_c_def oid_d_def)
  have left: "map oid (snd (delete_by_id ''quotation'' oid_a store_sample) ''quotation'')
       = [oid_b, oid_c, oid_d]"
    by (simp add: delete_by_id_def is_valid_oid_a ObjectId_oid_a Let_def store_sample_def
          quotation_doc_def)
  show ?thesis
    using delete_twice_not_found [where x = oid_a and s = store_sample and c = "''quotation''",
        OF is_valid_oid_a existing unique] is_valid_oid_a
      existing unique left
    by simp
qed

text \<open>
  Claim C5. Updating an existing record with a payload that sets only the field \<open>F\<close>
  changes \<open>F\<close> and the update timestamp and nothing else: every other field of the
  stored record and of the response is as before (so subtotal and total are not
  re-derived), and no other record or collection changes. \<open>F\<close> is the name of a
  top-level field.
\<close>

theorem update_by_id_partial_merge:
  assumes name: "field_name F"
    and existing: "find_one (ObjectId x) (s c) = Some d"
    and ok: "fst (update_by_id isoformat now c x [F \<mapsto> v] s) = Inr r"
  shows "(\<forall>k. k \<noteq> F \<and> k \<noteq> ''updated_at'' \<longrightarrow>
            stored_field (snd (update_by_id isoformat now c x [F \<mapsto> v] s)) c (ObjectId x) k
              = flds d k)
       \<and> stored_field (snd (update_by_id isoformat now c x [F \<mapsto> v] s)) c (ObjectId x)
            ''updated_at'' = Some (DateTime now)
       \<and> (F \<noteq> ''updated_at'' \<longrightarrow>
            stored_field (snd (update_by_id isoformat now c x [F \<mapsto> v] s)) c (ObjectId x) F
              = Some (Plain v))
       \<and> (F \<noteq> ''subtotal'' \<longrightarrow>
            stored_field (snd (update_by_id isoformat now c x [F \<mapsto> v] s)) c (ObjectId x)
              ''subtotal'' = flds d ''subtotal'')
       \<and> (F \<noteq> ''total'' \<longrightarrow>
            stored_field (snd (update_by_id isoformat now c x [F \<mapsto> v] s)) c (ObjectId x)
              ''total'' = flds d ''total'')
       \<and> (\<forall>k. k \<noteq> F \<and> k \<noteq> ''updated_at'' \<longrightarrow>
            response_field r k = response_field (to_str_id isoformat (Some d)) k)
       \<and> map oid (snd (update_by_id isoformat now c x [F \<mapsto> v] s) c) = map oid (s c)
       \<and> (\<forall>i. i \<noteq> ObjectId x \<longrightarrow>
            find_one i (snd (update_by_id isoformat now c x [F \<mapsto> v] s) c) = find_one i (s c))
       \<and> (\<forall>c'. c' \<noteq> c \<longrightarrow> snd (update_by_id isoformat now c x [F \<mapsto> v] s) c' = s c')"
proof -
  let ?p = "(map_option Plain \<circ> [F \<mapsto> v])(''updated_at'' \<mapsto> DateTime now)"
  let ?d' = "d\<lparr>flds := flds d ++ ?p\<rparr>"
  have valid: "is_valid x" and noid: "F \<noteq> ''_id''"
    using ok existing
    by (auto simp: update_by_id_def Let_def fst_find_one_and_update split: if_splits)
  have out: "update_by_id isoformat now c x [F \<mapsto> v] s
      = (Inr (to_str_id isoformat (Some ?d')),
         s(c := snd (find_one_and_update (ObjectId x) ?p (s c))))"
    using valid noid existing
    by (simp add: update_by_id_def Let_def fst_find_one_and_update)
  have r: "r = to_str_id isoformat (Some ?d')"
    using ok out by simp
  have look: "find_one (ObjectId x) (snd (find_one_and_update (ObjectId x) ?p (s c))) = Some ?d'"
    using existing by (simp add: find_one_after_update)
  have oidd: "oid d = ObjectId x"
    using existing by (simp add: find_one_SomeD)
  show ?thesis
    unfolding out r
    using look oidd
    by (auto simp: stored_field_def response_field_def to_str_id_def map_add_def
          find_one_after_update oids_after_update)
qed


lemma field_name_status: "field_name ''status''"
  by (simp add: field_name_def)

theorem update_by_id_partial_merge_witness:
  "field_name ''status''
   \<and> find_one (ObjectId oid_a) (store_sample ''quotation'')
       = Some (quotation_doc oid_a oid_e ''approved'' 100 (10 * day))
   \<and> fst (update_by_id iso_sample (61 * day) ''quotation'' oid_a [''status'' \<mapsto> JStr ''sent'']
             store_sample)
       = Inr (projr (fst (update_by_id iso_sample (61 * day) ''quotation'' oid_a
                            [''status'' \<mapsto> JStr ''sent''] store_sample)))
   \<and> stored_field (snd (update_by_id iso_sample (61 * day) ''quotation'' oid_a
                           [''status'' \<mapsto> JStr ''sent''] store_sample))
         ''quotation'' (ObjectId oid_a) ''status'' = Some (Plain (JStr ''sent''))
   \<and> stored_field (snd (update_by_id iso_sample (61 * day) ''quotation'' oid_a
                           [''status'' \<mapsto> JStr ''sent''] store_sample))
         ''quotation'' (ObjectId oid_a) ''updated_at'' = Some (DateTime (61 * day))
   \<and> stored_field (snd (update_by_id iso_sample (61 * day) ''quotation'' oid_a
                           [''status'' \<mapsto> JStr ''sent''] store_sample))
         ''quotation'' (ObjectId oid_a) ''subtotal'' = Some (Plain (JNum 100))
   \<and> stored_field (snd (update_by_id iso_sample (61 * day) ''quotation'' oid_a
                           [''status'' \<mapsto> JStr ''sent''] store_sample))
         ''quotation'' (ObjectId oid_a) ''total'' = Some (Plain (JNum 100))"
proof -
  let ?d = "quotation_doc oid_a oid_e ''approved'' 100 (10 * day)"
  let ?out = "update_by_id iso_sample (61 * day) ''quotation'' oid_a [''status'' \<mapsto> JStr ''sent'']
                store_sample"
  have existing: "find_one (ObjectId oid_a) (store_sample ''quotation'') = Some ?d"
    by (simp add: ObjectId_oid_a store_sample_def quotation_doc_def)
  have ok: "fst ?out = Inr (projr (fst ?out))"
    by (simp add: update_by_id_def is_valid_oid_a Let_def fst_find_one_and_update existing)
  have old: "flds ?d ''subtotal'' = Some (Plain (JNum 100))"
    "flds ?d ''total'' = Some (Plain (JNum 100))"
    by (simp_all add: quotation_doc_def)
  show ?thesis
    using update_by_id_partial_merge [OF field_name_status existing ok] field_name_status
      existing ok old
    by simp
qed

section \<open>Store invariants kept by the endpoints\<close>

text \<open>
  Two facts about a collection that the endpoints preserve: no creation timestamp is
  later than the clock (which only advances), and ids are unique (the store assigns an
  unused id to an inserted document).
\<close>

lemma no_future_mono: "no_future t docs \<Longrightarrow> t \<le> t' \<Longrightarrow> no_future t' docs"
  by (induction docs) (auto simp: no_future_def split: option.splits val.splits)

lemma no_future_after_update:
  "no_future t ds \<Longrightarrow> (\<forall>u. p ''created_at'' \<noteq> Some (DateTime u)) \<Longrightarrow>
   no_future t (snd (find_one_and_update i p ds))"
  by (induction ds)
     (auto simp: no_future_def map_add_def split: option.splits val.splits)

lemma no_future_after_delete: "no_future t ds \<Longrightarrow> no_future t (snd (delete_one i ds))"
  by (induction ds) (auto simp: no_future_def)

lemma create_quotation_no_future:
  "no_future now (s ''quotation'') \<Longrightarrow>
   no_future now (snd (create_quotation isoformat now new_oid q s) ''quotation'')"
  by (simp add: create_quotation_def Let_def create_document_def insert_one_def no_future_def)

lemma update_by_id_no_future:
  "no_future t (s c') \<Longrightarrow> no_future t (snd (update_by_id isoformat now c x payload s) c')"
  by (auto simp: update_by_id_def Let_def update_no_match fst_find_one_and_update
        intro!: no_future_after_update)

lemma delete_by_id_no_future:
  "no_future t (s c') \<Longrightarrow> no_future t (snd (delete_by_id c x s) c')"
  by (auto simp: delete_by_id_def Let_def intro!: no_future_after_delete)

lemma create_document_unique_ids:
  "find_one (ObjectId new_oid) (s c) = None \<Longrightarrow> distinct (map oid (s c)) \<Longrightarrow>
   distinct (map oid (snd (create_document now new_oid c data s) c))"
  by (simp add: create_document_def insert_one_def find_one_None_iff)

lemma create_quotation_unique_ids:
  "find_one (ObjectId new_oid) (s ''quotation'') = None \<Longrightarrow>
   distinct (map oid (s ''quotation'')) \<Longrightarrow>
   distinct (map oid (snd (create_quotation isoformat now new_oid q s) ''quotation''))"
  by (simp add: create_quotation_def Let_def create_document_unique_ids)

lemma update_by_id_unique_ids:
  "map oid (snd (update_by_id isoformat now c x payload s) c') = map oid (s c')"
  by (simp add: update_by_id_def Let_def oids_after_update)

lemma delete_by_id_unique_ids:
  "distinct (map oid (s c')) \<Longrightarrow> distinct (map oid (snd (delete_by_id c x s) c'))"
  by (auto simp: delete_by_id_def Let_def distinct_after_delete)

section \<open>Listing quotations\<close>

lemma matches_quotation_query:
  "matches (quotation_query emp_filter status_filter) = quotation_filter emp_filter status_filter"
  by (rule ext) (simp add: quotation_query_def quotation_filter_def matches_def)

lemma mset_sort_created_desc: "mset (sort_created_desc docs) = mset docs"
  by (simp add: sort_created_desc_def)

lemma newest_first_sort_created_desc: "newest_first (sort_created_desc docs)"
proof -
  have "sorted (map created_key (sort_key created_key docs))"
    by (rule sorted_sort_key)
  then have "sorted_wrt (\<lambda>a b. created_key a \<le> created_key b) (sort_key created_key docs)"
    by (simp add: sorted_map)
  then show ?thesis
    by (simp add: newest_first_def sort_created_desc_def sorted_wrt_rev)
qed

text \<open>
  Claim C8. The listing is the rendering of exactly the quotations that equal every
  supplied filter on its field (as a multiset: no record lost, none added), ordered with
  the newest creation timestamp first.
\<close>

theorem list_quotations_filtered_newest_first:
  "\<exists>docs. list_quotations isoformat emp_filter status_filter s
             = map (\<lambda>d. to_str_id isoformat (Some d)) docs
        \<and> mset docs
            = mset (filter (quotation_filter emp_filter status_filter) (s ''quotation''))
        \<and> newest_first docs"
proof -
  let ?docs = "sort_created_desc
                 (find_docs (quotation_query emp_filter status_filter) (s ''quotation''))"
  have "list_quotations isoformat emp_filter status_filter s
          = map (\<lambda>d. to_str_id isoformat (Some d)) ?docs"
    by (simp add: list_quotations_def)
  moreover have "mset ?docs
      = mset (filter (quotation_filter emp_filter status_filter) (s ''quotation''))"
    by (simp only: mset_sort_created_desc find_docs_def matches_quotation_query)
  moreover have "newest_first ?docs"
    by (rule newest_first_sort_created_desc)
  ultimately show ?thesis by blast
qed

theorem list_quotations_filtered_newest_first_witness:
  "(\<exists>docs. list_quotations iso_sample (Some oid_e) (Some ''approved'') store_sample
             = map (\<lambda>d. to_str_id iso_sample (Some d)) docs
        \<and> mset docs
            = mset (filter (quotation_filter (Some oid_e) (Some ''approved''))
                      (store_sample ''quotation''))
        \<and> newest_first docs)
   \<and> map oid (filter (quotation_filter (Some oid_e) (Some ''approved''))
                 (store_sample ''quotation'')) = [oid_a, oid_d]
   \<and> map (\<lambda>r. response_field r ''_id'')
        (list_quotations iso_sample (Some oid_e) (Some ''approved'') store_sample)
       = [Some (JStr oid_d), Some (JStr oid_a)]"
proof -
  have f: "map oid (filter (quotation_filter (Some oid_e) (Some ''approved''))
                 (store_sample ''quotation'')) = [oid_a, oid_d]"
    by (simp add: quotation_filter_def truthy_def store_sample_def empty_store_def
          quotation_doc_def oid_e_def oid_b_def)
  have l: "map (\<lambda>r. response_field r ''_id'')
        (list_quotations iso_sample (Some oid_e) (Some ''approved'') store_sample)
       = [Some (JStr oid_d), Some (JStr oid_a)]"
    by (simp add: list_quotations_def quotation_query_def truthy_def find_docs_def matches_def
          store_sample_def empty_store_def quotation_doc_def oid_e_def oid_b_def
          sort_created_desc_def created_key_def day_def response_field_def to_str_id_def)
  show ?thesis
    using list_quotations_filtered_newest_first
            [of iso_sample "Some oid_e" "Some ''approved''" store_sample] f l
    by simp
qed

section \<open>The 30-day window of the performance summary\<close>

lemma matches_single_Gte:
  "matches [(k, GteDate t)] d = (case flds d k of Some (DateTime u) \<Rightarrow> t \<le> u | _ \<Rightarrow> False)"
  by (cases "flds d k"; cases "the (flds d k)") (simp_all add: matches_def)

lemma window_filter:
  "no_future now docs \<Longrightarrow>
   filter (matches [(''created_at'', GteDate (now - timedelta_days 30))]) docs
     = filter (created_in_window now) docs"
  by (induction docs)
     (auto simp: no_future_def matches_single_Gte created_in_window_def
        split: option.splits val.splits)

lemma no_future_filter: "no_future now docs \<Longrightarrow> no_future now (filter P docs)"
  by (induction docs) (auto simp: no_future_def)

text \<open>
  Claim C4. The 30-day count of the summary is the number of the employee's quotations
  whose creation timestamp lies in the window from \<open>now - 30 days\<close> to \<open>now\<close>, both
  ends included, \<open>now\<close> being the time of evaluation. No stored creation timestamp is
  later than \<open>now\<close>: the endpoints keep this true as the clock advances (see
  \<open>create_quotation_no_future\<close>, \<open>update_by_id_no_future\<close>,
  \<open>delete_by_id_no_future\<close> and \<open>no_future_mono\<close>).
\<close>

theorem last30_counts_trailing_window:
  assumes ok: "performance now emp_id s = Inr r"
    and clock: "no_future now (s ''quotation'')"
  shows "last30_quotations r = length (filter (created_in_window now) (quotations_of emp_id s))"
proof -
  let ?q = "[(''employee_id'', Eq (Plain (JStr emp_id)))]"
  let ?w = "[(''created_at'', GteDate (now - timedelta_days 30))]"
  have "last30_quotations r = count_documents (?q @ ?w) (s ''quotation'')"
    using ok by (auto simp: performance_def Let_def split: if_splits)
  also have "\<dots> = length (filter (matches ?w) (quotations_of emp_id s))"
    by (simp only: count_documents_def find_docs_append find_docs_employee)
  also have "\<dots> = length (filter (created_in_window now) (quotations_of emp_id s))"
  proof -
    have "no_future now (quotations_of emp_id s)"
      unfolding quotations_of_def using clock by (rule no_future_filter)
    then show ?thesis
      by (simp only: window_filter)
  qed
  finally show ?thesis .
qed

theorem last30_counts_trailing_window_witness:
  "performance (60 * day) oid_e store_sample
     = Inr \<lparr>total_quotations = 3, last30_quotations = 2, total_revenue = 180,
            avg_quote_value = Some 60\<rparr>
   \<and> no_future (60 * day) (store_sample ''quotation'')
   \<and> map oid (filter (created_in_window (60 * day)) (quotations_of oid_e store_sample))
       = [oid_b, oid_d]
   \<and> last30_quotations \<lparr>total_quotations = 3, last30_quotations = 2, total_revenue = 180,
            avg_quote_value = Some (60::real)\<rparr>
       = length (filter (created_in_window (60 * day)) (quotations_of oid_e store_sample))"
proof -
  have p: "performance (60 * day) oid_e store_sample
     = Inr \<lparr>total_quotations = 3, last30_quotations = 2, total_revenue = 180,
            avg_quote_value = Some 60\<rparr>"
    by (simp add: performance_def Let_def count_documents_def find_docs_def
          matches_def store_sample_def empty_store_def quotation_doc_def aggregate_def
          numeric_totals_def timedelta_days_def day_def oid_e_def oid_b_def
          is_valid_def is_hex_def is_space_def hexdigits_def whitespace_def)
  have c: "no_future (60 * day) (store_sample ''quotation'')"
    by (simp add: no_future_def store_sample_def quotation_doc_def day_def)
  have w: "map oid (filter (created_in_window (60 * day)) (quotations_of oid_e store_sample))
       = [oid_b, oid_d]"
    by (simp add: quotations_of_def created_in_window_def store_sample_def empty_store_def
          quotation_doc_def timedelta_days_def day_def oid_e_def oid_b_def)
  show ?thesis
    using last30_counts_trailing_window [OF p c] p c w by simp
qed

end
